theory Spec2Isabelle
  imports Complex_Main "HOL-Library.Sublist" "HOL-Library.Char_ord" "HOL-Library.List_Lexorder"
begin

section \<open>Data model\<close>

text \<open>
  A cell of one of the four percentage columns is a float as pandas reads it from the CSV
  file: a finite number, or NaN (pandas' marker of a missing or undefined value).
  Arithmetic on finite values is exact real arithmetic here; rounding, overflow and the
  infinities of IEEE doubles are outside this development.
\<close>

datatype pyfloat = Fin real | NaN

text \<open>
  One row of the table loaded by \<open>load_data\<close>. The fields stand for the columns
  \<open>Year\<close>, \<open>Country\<close>, \<open>Industry\<close>, \<open>Top AI Tools Used\<close>, \<open>Regulation Status\<close>,
  \<open>AI Adoption Rate (%)\<close>, \<open>Job Loss Due to AI (%)\<close>, \<open>Revenue Increase Due to AI (%)\<close>
  and \<open>Human-AI Collaboration Rate (%)\<close>.
\<close>

record row =
  year :: int
  country :: string
  industry :: string
  top_ai_tool :: string
  regulation_status :: string
  ai_adoption_rate :: pyfloat
  job_loss :: pyfloat
  revenue_increase :: pyfloat
  collaboration_rate :: pyfloat

type_synonym dataframe = "row list"

text \<open>The four metric columns, in the order of the list \<open>metrics\<close> of the source.\<close>

datatype metric = AdoptionRate | JobLoss | RevenueIncrease | CollaborationRate

fun cell :: "metric \<Rightarrow> row \<Rightarrow> pyfloat" where
  "cell AdoptionRate r = ai_adoption_rate r"
| "cell JobLoss r = job_loss r"
| "cell RevenueIncrease r = revenue_increase r"
| "cell CollaborationRate r = collaboration_rate r"

text \<open>\<open>df[m]\<close>: one metric column of a frame, as a series.\<close>

definition getcol :: "metric \<Rightarrow> dataframe \<Rightarrow> pyfloat list" where
  "getcol m df = map (cell m) df"

text \<open>The values chosen in the sidebar: the slider's pair and the four multiselect lists.\<close>

record criteria =
  year_range :: "int \<times> int"
  selected_countries :: "string list"
  selected_industries :: "string list"
  selected_tools :: "string list"
  selected_reg :: "string list"


section \<open>Filter engine\<close>

text \<open>\<open>Series.between(left, right)\<close>, inclusive on both sides: a boolean series.\<close>

definition between :: "int list \<Rightarrow> int \<Rightarrow> int \<Rightarrow> bool list" where
  "between s left right = map (\<lambda>x. left \<le> x \<and> x \<le> right) s"

text \<open>\<open>Series.isin(values)\<close>: a boolean series.\<close>

definition isin :: "string list \<Rightarrow> string list \<Rightarrow> bool list" where
  "isin s vals = map (\<lambda>x. x \<in> set vals) s"

text \<open>\<open>a & b\<close> on two boolean series over the same index.\<close>

definition and_series :: "bool list \<Rightarrow> bool list \<Rightarrow> bool list" where
  "and_series a b = map (\<lambda>(x, y). x \<and> y) (zip a b)"

text \<open>\<open>df[mask]\<close>: the rows whose mask entry is true, in the frame's order.\<close>

definition getitem_mask :: "'a list \<Rightarrow> bool list \<Rightarrow> 'a list" where
  "getitem_mask df msk = map fst (filter snd (zip df msk))"

text \<open>The statement that builds \<open>filtered_df\<close>; \<open>&\<close> associates to the left.\<close>

definition filtered_df :: "dataframe \<Rightarrow> criteria \<Rightarrow> dataframe" where
  "filtered_df df c =
     getitem_mask df
       (and_series
         (and_series
           (and_series
             (and_series
               (between (map year df) (fst (year_range c)) (snd (year_range c)))
               (isin (map country df) (selected_countries c)))
             (isin (map industry df) (selected_industries c)))
           (isin (map top_ai_tool df) (selected_tools c)))
         (isin (map regulation_status df) (selected_reg c)))"

text \<open>
  The conjunctive predicate of the specification's FilteredView, written from its words:
  \<open>yearRange.min \<le> year \<le> yearRange.max\<close> and each categorical field in its set.
\<close>

definition satisfies :: "criteria \<Rightarrow> row \<Rightarrow> bool" where
  "satisfies c r \<longleftrightarrow>
     fst (year_range c) \<le> year r \<and> year r \<le> snd (year_range c) \<and>
     country r \<in> set (selected_countries c) \<and>
     industry r \<in> set (selected_industries c) \<and>
     top_ai_tool r \<in> set (selected_tools c) \<and>
     regulation_status r \<in> set (selected_reg c)"

text \<open>
  The criteria with every selected value that occurs in no row of the frame (in the
  column it filters) removed.
\<close>

definition drop_absent :: "dataframe \<Rightarrow> criteria \<Rightarrow> criteria" where
  "drop_absent df c =
     c\<lparr>selected_countries := filter (\<lambda>v. v \<in> set (map country df)) (selected_countries c),
       selected_industries := filter (\<lambda>v. v \<in> set (map industry df)) (selected_industries c),
       selected_tools := filter (\<lambda>v. v \<in> set (map top_ai_tool df)) (selected_tools c),
       selected_reg := filter (\<lambda>v. v \<in> set (map regulation_status df)) (selected_reg c)\<rparr>"


section \<open>Aggregation layer\<close>

text \<open>The values of a series that are not NaN (\<open>skipna=True\<close>, the pandas default).\<close>

fun dropna :: "pyfloat list \<Rightarrow> real list" where
  "dropna [] = []"
| "dropna (Fin x # s) = x # dropna s"
| "dropna (NaN # s) = dropna s"

text \<open>\<open>Series.mean()\<close>: the mean of the values that are not NaN, and NaN when there are none.\<close>

definition series_mean :: "pyfloat list \<Rightarrow> pyfloat" where
  "series_mean s =
     (let v = dropna s in if v = [] then NaN else Fin (sum_list v / real (length v)))"

text \<open>\<open>Series.max()\<close> and \<open>Series.min()\<close>: NaN when no value is left after dropping NaN.\<close>

definition series_max :: "pyfloat list \<Rightarrow> pyfloat" where
  "series_max s = (case dropna s of [] \<Rightarrow> NaN | x # xs \<Rightarrow> Fin (fold max xs x))"

definition series_min :: "pyfloat list \<Rightarrow> pyfloat" where
  "series_min s = (case dropna s of [] \<Rightarrow> NaN | x # xs \<Rightarrow> Fin (fold min xs x))"

text \<open>Float subtraction: NaN when either operand is NaN.\<close>

fun fsub :: "pyfloat \<Rightarrow> pyfloat \<Rightarrow> pyfloat" where
  "fsub (Fin a) (Fin b) = Fin (a - b)"
| "fsub _ _ = NaN"

text \<open>Decimal digits of a natural number, most significant first.\<close>

fun digits :: "nat \<Rightarrow> string" where
  "digits n =
     (if n < 10 then [''0123456789'' ! n]
      else digits (n div 10) @ [''0123456789'' ! (n mod 10)])"

text \<open>Rounding a non-negative real to the nearest integer, ties to the even one.\<close>

definition round_half_even :: "real \<Rightarrow> nat" where
  "round_half_even x =
     (let f = nat \<lfloor>x\<rfloor>; d = x - real f
      in if d < 1 / 2 then f else if 1 / 2 < d then f + 1
         else if even f then f else f + 1)"

text \<open>
  The format specification \<open>.2f\<close> of the f-strings: a float prints with two digits after
  the point, and NaN prints as the text \<open>nan\<close>.
\<close>

fun format_2f :: "pyfloat \<Rightarrow> string" where
  "format_2f NaN = ''nan''"
| "format_2f (Fin x) =
     (let n = round_half_even (\<bar>x\<bar> * 100)
      in (if x < 0 then ''-'' else []) @ digits (n div 100) @ ''.'' @
         digits (n mod 100 div 10) @ digits (n mod 10))"

text \<open>The overall mean of one metric column of the filtered frame.\<close>

definition overall_mean :: "metric \<Rightarrow> dataframe \<Rightarrow> pyfloat" where
  "overall_mean m fdf = series_mean (getcol m fdf)"

definition avg_adoption :: "dataframe \<Rightarrow> pyfloat" where
  "avg_adoption fdf = overall_mean AdoptionRate fdf"

definition avg_job_loss :: "dataframe \<Rightarrow> pyfloat" where
  "avg_job_loss fdf = overall_mean JobLoss fdf"

definition avg_revenue :: "dataframe \<Rightarrow> pyfloat" where
  "avg_revenue fdf = overall_mean RevenueIncrease fdf"

definition avg_collaboration :: "dataframe \<Rightarrow> pyfloat" where
  "avg_collaboration fdf = overall_mean CollaborationRate fdf"

text \<open>The three arguments of a call of \<open>st.metric\<close>: label, value and delta.\<close>

record metric_card =
  card_label :: string
  card_value :: string
  card_delta :: string

definition kpi_adoption :: "dataframe \<Rightarrow> metric_card" where
  "kpi_adoption fdf =
     \<lparr>card_label = ''AI Adoption Rate'',
      card_value = format_2f (avg_adoption fdf) @ ''%'',
      card_delta =
        format_2f (fsub (series_max (getcol AdoptionRate fdf)) (avg_adoption fdf))
          @ ''% from max''\<rparr>"

definition kpi_job_loss :: "dataframe \<Rightarrow> metric_card" where
  "kpi_job_loss fdf =
     \<lparr>card_label = ''Job Loss Due to AI'',
      card_value = format_2f (avg_job_loss fdf) @ ''%'',
      card_delta =
        format_2f (fsub (avg_job_loss fdf) (series_min (getcol JobLoss fdf)))
          @ ''% from min''\<rparr>"

definition kpi_revenue :: "dataframe \<Rightarrow> metric_card" where
  "kpi_revenue fdf =
     \<lparr>card_label = ''Revenue Increase'',
      card_value = format_2f (avg_revenue fdf) @ ''%'',
      card_delta =
        format_2f (fsub (series_max (getcol RevenueIncrease fdf)) (avg_revenue fdf))
          @ ''% from max''\<rparr>"

definition kpi_collaboration :: "dataframe \<Rightarrow> metric_card" where
  "kpi_collaboration fdf =
     \<lparr>card_label = ''Human-AI Collaboration'',
      card_value = format_2f (avg_collaboration fdf) @ ''%'',
      card_delta =
        format_2f (fsub (avg_collaboration fdf) (series_min (getcol CollaborationRate fdf)))
          @ ''% from min''\<rparr>"

text \<open>
  \<open>groupby(key)\<close> with the pandas default \<open>sort=True\<close>: one group for each distinct key,
  the groups in ascending order of the key, the rows of a group in the frame's order.
  Each row is put into its group, and a new group takes its place in the key order.
\<close>

fun add_to_group :: "'k::linorder \<Rightarrow> 'v \<Rightarrow> ('k \<times> 'v list) list \<Rightarrow> ('k \<times> 'v list) list" where
  "add_to_group k v [] = [(k, [v])]"
| "add_to_group k v ((a, vs) # gs) =
     (if k < a then (k, [v]) # (a, vs) # gs
      else if k = a then (a, vs @ [v]) # gs
      else (a, vs) # add_to_group k v gs)"

definition groupby :: "('v \<Rightarrow> 'k::linorder) \<Rightarrow> 'v list \<Rightarrow> ('k \<times> 'v list) list" where
  "groupby key df = fold (\<lambda>x gs. add_to_group (key x) x gs) df []"

text \<open>\<open>groupby(key)[m].mean().reset_index()\<close>: one row (key, mean) for each group.\<close>

definition groupby_mean ::
  "(row \<Rightarrow> 'k::linorder) \<Rightarrow> metric \<Rightarrow> dataframe \<Rightarrow> ('k \<times> pyfloat) list" where
  "groupby_mean key m fdf = map (\<lambda>(k, rs). (k, series_mean (getcol m rs))) (groupby key fdf)"

text \<open>
  \<open>groupby(key).agg({m: 'mean', ...}).reset_index()\<close>: one row for each group, holding
  the key and the mean of each listed column, in the order of the dictionary.
\<close>

definition groupby_agg_mean ::
  "(row \<Rightarrow> 'k::linorder) \<Rightarrow> metric list \<Rightarrow> dataframe \<Rightarrow> ('k \<times> (metric \<times> pyfloat) list) list" where
  "groupby_agg_mean key cols fdf =
     map (\<lambda>(k, rs). (k, map (\<lambda>m. (m, series_mean (getcol m rs))) cols)) (groupby key fdf)"

definition yearly_data :: "metric \<Rightarrow> dataframe \<Rightarrow> (int \<times> pyfloat) list" where
  "yearly_data m fdf = groupby_mean year m fdf"

definition country_metrics :: "dataframe \<Rightarrow> (string \<times> (metric \<times> pyfloat) list) list" where
  "country_metrics fdf =
     groupby_agg_mean country [AdoptionRate, JobLoss, RevenueIncrease] fdf"

definition industry_metrics :: "dataframe \<Rightarrow> (string \<times> (metric \<times> pyfloat) list) list" where
  "industry_metrics fdf =
     groupby_agg_mean industry [AdoptionRate, JobLoss, RevenueIncrease, CollaborationRate] fdf"

definition tool_analysis :: "dataframe \<Rightarrow> (string \<times> (metric \<times> pyfloat) list) list" where
  "tool_analysis fdf = groupby_agg_mean top_ai_tool [AdoptionRate, RevenueIncrease] fdf"


section \<open>Radar chart adapter\<close>

definition categories :: "metric list" where
  "categories = [AdoptionRate, JobLoss, RevenueIncrease, CollaborationRate]"

text \<open>The arguments of one \<open>go.Scatterpolar\<close> trace.\<close>

record scatterpolar =
  trace_r :: "pyfloat list"
  trace_theta :: "metric list"
  trace_fill :: string
  trace_name :: string

text \<open>
  The body of the loop over the rows of \<open>industry_metrics\<close>. \<open>row[cat]\<close> looks a column
  up by its label; \<open>None\<close> stands for the KeyError of a label the row does not have.
\<close>

definition radar_trace :: "string \<times> (metric \<times> pyfloat) list \<Rightarrow> scatterpolar option" where
  "radar_trace rw =
     (case those (map (map_of (snd rw)) categories) of
        None \<Rightarrow> None
      | Some vals \<Rightarrow>
          Some \<lparr>trace_r = vals @ take 1 vals,
                trace_theta = categories @ [categories ! 0],
                trace_fill = ''toself'',
                trace_name = fst rw\<rparr>)"

definition fig_industry :: "dataframe \<Rightarrow> scatterpolar option list" where
  "fig_industry fdf = map radar_trace (industry_metrics fdf)"


section \<open>Correlation matrix\<close>







section \<open>Scenario data\<close>

text \<open>The three-record dataset of the specification's scenarios.\<close>

definition scenario_df :: dataframe where
  "scenario_df =
     [\<lparr>year = 2020, country = ''USA'', industry = ''Media'', top_ai_tool = ''ChatGPT'',
       regulation_status = ''Strict'', ai_adoption_rate = Fin 10, job_loss = Fin 5,
       revenue_increase = Fin 20, collaboration_rate = Fin 50\<rparr>,
      \<lparr>year = 2021, country = ''USA'', industry = ''Media'', top_ai_tool = ''ChatGPT'',
       regulation_status = ''Strict'', ai_adoption_rate = Fin 20, job_loss = Fin 5,
       revenue_increase = Fin 30, collaboration_rate = Fin 60\<rparr>,
      \<lparr>year = 2020, country = ''UK'', industry = ''Media'', top_ai_tool = ''ChatGPT'',
       regulation_status = ''Strict'', ai_adoption_rate = Fin 15, job_loss = Fin 10,
       revenue_increase = Fin 25, collaboration_rate = Fin 40\<rparr>]"

definition scenario_criteria :: criteria where
  "scenario_criteria =
     \<lparr>year_range = (2020, 2020), selected_countries = [''USA''],
      selected_industries = [''Media''], selected_tools = [''ChatGPT''],
      selected_reg = [''Strict'']\<rparr>"


section \<open>Properties of the filter engine\<close>

lemma getitem_mask_Nil [simp]: "getitem_mask [] msk = []"
  by (simp add: getitem_mask_def)

lemma getitem_mask_map: "getitem_mask xs (map P xs) = filter P xs"
  by (induction xs) (simp_all add: getitem_mask_def)

lemma and_series_map: "and_series (map P xs) (map Q xs) = map (\<lambda>x. P x \<and> Q x) xs"
  by (induction xs) (simp_all add: and_series_def)

lemma between_map: "between (map f xs) lo hi = map (\<lambda>x. lo \<le> f x \<and> f x \<le> hi) xs"
  by (simp add: between_def)

lemma isin_map: "isin (map f xs) vals = map (\<lambda>x. f x \<in> set vals) xs"
  by (simp add: isin_def)

lemma filtered_df_eq_filter: "filtered_df df c = filter (satisfies c) df"
proof -
  have "filtered_df df c = getitem_mask df (map (satisfies c) df)"
    unfolding filtered_df_def between_map isin_map and_series_map satisfies_def
    by (simp add: conj_assoc)
  then show ?thesis
    by (simp add: getitem_mask_map)
qed

lemma subseq_filter_mono:
  "(\<And>x. x \<in> set xs \<Longrightarrow> P x \<Longrightarrow> Q x) \<Longrightarrow> subseq (filter P xs) (filter Q xs)"
  by (induction xs) auto

lemma filter_none: "(\<And>x. x \<in> set xs \<Longrightarrow> \<not> P x) \<Longrightarrow> filter P xs = []"
  by (induction xs) auto

text \<open>
  C3: the filtered frame is exactly the rows of the dataset that satisfy the conjunctive
  predicate, in the dataset's order; it is a subsequence of the dataset, so two rows
  of the result stand in the same relative order as in the dataset.
\<close>

theorem filtered_df_ordered_subsequence:
  "filtered_df df c = filter (satisfies c) df \<and> subseq (filtered_df df c) df"
  by (simp add: filtered_df_eq_filter)

text \<open>
  C2: when one of the four selection lists is empty, the filtered frame is empty,
  whatever the other fields are.
\<close>

theorem filtered_df_empty_selection:
  assumes "selected_countries c = [] \<or> selected_industries c = [] \<or>
           selected_tools c = [] \<or> selected_reg c = []"
  shows "filtered_df df c = []"
proof -
  have "\<not> satisfies c r" for r
    using assms by (auto simp: satisfies_def)
  then show ?thesis
    by (simp add: filtered_df_eq_filter filter_none)
qed

theorem filtered_df_empty_selection_witness:
  "(selected_countries (scenario_criteria\<lparr>selected_countries := []\<rparr>) = [] \<or>
    selected_industries (scenario_criteria\<lparr>selected_countries := []\<rparr>) = [] \<or>
    selected_tools (scenario_criteria\<lparr>selected_countries := []\<rparr>) = [] \<or>
    selected_reg (scenario_criteria\<lparr>selected_countries := []\<rparr>) = []) \<and>
   filtered_df scenario_df (scenario_criteria\<lparr>selected_countries := []\<rparr>) = [] \<and>
   filtered_df scenario_df scenario_criteria \<noteq> []"
proof -
  have h: "selected_countries (scenario_criteria\<lparr>selected_countries := []\<rparr>) = [] \<or>
    selected_industries (scenario_criteria\<lparr>selected_countries := []\<rparr>) = [] \<or>
    selected_tools (scenario_criteria\<lparr>selected_countries := []\<rparr>) = [] \<or>
    selected_reg (scenario_criteria\<lparr>selected_countries := []\<rparr>) = []"
    by simp
  have "filtered_df scenario_df scenario_criteria \<noteq> []"
    by (simp add: filtered_df_def scenario_df_def scenario_criteria_def between_def
        isin_def and_series_def getitem_mask_def)
  with h filtered_df_empty_selection [OF h, of scenario_df] show ?thesis
    by simp
qed

text \<open>
  C4: when the slider pair has its first component strictly above its second, the
  filtered frame is empty: the bounds are used as given.
\<close>

theorem filtered_df_inverted_range:
  assumes "snd (year_range c) < fst (year_range c)"
  shows "filtered_df df c = []"
proof -
  have "\<not> satisfies c r" for r
    using assms by (auto simp: satisfies_def)
  then show ?thesis
    by (simp add: filtered_df_eq_filter filter_none)
qed

theorem filtered_df_inverted_range_witness:
  "snd (year_range (scenario_criteria\<lparr>year_range := (2021, 2020)\<rparr>))
     < fst (year_range (scenario_criteria\<lparr>year_range := (2021, 2020)\<rparr>)) \<and>
   filtered_df scenario_df (scenario_criteria\<lparr>year_range := (2021, 2020)\<rparr>) = [] \<and>
   filtered_df scenario_df (scenario_criteria\<lparr>year_range := (2020, 2021)\<rparr>) \<noteq> []"
proof -
  have h: "snd (year_range (scenario_criteria\<lparr>year_range := (2021, 2020)\<rparr>))
     < fst (year_range (scenario_criteria\<lparr>year_range := (2021, 2020)\<rparr>))"
    by simp
  have "filtered_df scenario_df (scenario_criteria\<lparr>year_range := (2020, 2021)\<rparr>) \<noteq> []"
    by (simp add: filtered_df_def scenario_df_def scenario_criteria_def between_def
        isin_def and_series_def getitem_mask_def)
  with h filtered_df_inverted_range [OF h, of scenario_df] show ?thesis
    by simp
qed

text \<open>
  C5: selected values that occur in no row of the dataset match nothing. The filter is a
  total function (no branch of it raises), and its result is the result for the criteria
  with those absent values removed.
\<close>

theorem filtered_df_absent_values:
  "filtered_df df c = filtered_df df (drop_absent df c)"
  unfolding filtered_df_eq_filter
  by (rule filter_cong) (auto simp: satisfies_def drop_absent_def)

text \<open>
  C9: filtering is monotone. When the year interval of \<open>c1\<close> lies within that of \<open>c2\<close>
  and every selection list of \<open>c1\<close> is contained in the one of \<open>c2\<close>, the frame filtered
  by \<open>c1\<close> is a subsequence of the frame filtered by \<open>c2\<close>.
\<close>

theorem filtered_df_monotone:
  assumes "{fst (year_range c1) .. snd (year_range c1)}
             \<subseteq> {fst (year_range c2) .. snd (year_range c2)}"
    and "set (selected_countries c1) \<subseteq> set (selected_countries c2)"
    and "set (selected_industries c1) \<subseteq> set (selected_industries c2)"
    and "set (selected_tools c1) \<subseteq> set (selected_tools c2)"
    and "set (selected_reg c1) \<subseteq> set (selected_reg c2)"
  shows "subseq (filtered_df df c1) (filtered_df df c2)"
proof -
  have "satisfies c2 r" if "satisfies c1 r" for r
  proof -
    from that have "year r \<in> {fst (year_range c1) .. snd (year_range c1)}"
      by (simp add: satisfies_def)
    with assms(1) have "year r \<in> {fst (year_range c2) .. snd (year_range c2)}"
      by blast
    with that assms(2-5) show ?thesis
      by (auto simp: satisfies_def)
  qed
  then show ?thesis
    by (simp add: filtered_df_eq_filter subseq_filter_mono)
qed

theorem filtered_df_monotone_witness:
  "{fst (year_range scenario_criteria) .. snd (year_range scenario_criteria)}
     \<subseteq> {fst (year_range (scenario_criteria\<lparr>year_range := (2020, 2021),
               selected_countries := [''UK'', ''USA'']\<rparr>)) ..
         snd (year_range (scenario_criteria\<lparr>year_range := (2020, 2021),
               selected_countries := [''UK'', ''USA'']\<rparr>))} \<and>
   subseq (filtered_df scenario_df scenario_criteria)
     (filtered_df scenario_df
        (scenario_criteria\<lparr>year_range := (2020, 2021),
           selected_countries := [''UK'', ''USA'']\<rparr>)) \<and>
   filtered_df scenario_df scenario_criteria \<noteq> []"
proof -
  let ?c2 = "scenario_criteria\<lparr>year_range := (2020, 2021),
               selected_countries := [''UK'', ''USA'']\<rparr>"
  have h1: "{fst (year_range scenario_criteria) .. snd (year_range scenario_criteria)}
     \<subseteq> {fst (year_range ?c2) .. snd (year_range ?c2)}"
    by (simp add: scenario_criteria_def)
  have h2: "set (selected_countries scenario_criteria) \<subseteq> set (selected_countries ?c2)"
    by (simp add: scenario_criteria_def)
  have h3: "set (selected_industries scenario_criteria) \<subseteq> set (selected_industries ?c2)"
    by simp
  have h4: "set (selected_tools scenario_criteria) \<subseteq> set (selected_tools ?c2)"
    by simp
  have h5: "set (selected_reg scenario_criteria) \<subseteq> set (selected_reg ?c2)"
    by simp
  have ne: "filtered_df scenario_df scenario_criteria \<noteq> []"
    by (simp add: filtered_df_def scenario_df_def scenario_criteria_def between_def
        isin_def and_series_def getitem_mask_def)
  from filtered_df_monotone [OF h1 h2 h3 h4 h5, of scenario_df] h1 ne show ?thesis
    by blast
qed

section \<open>Properties of the aggregation layer and the radar adapter\<close>

lemma groupby_Nil: "groupby key [] = []"
  by (simp add: groupby_def)

lemma add_to_group_keys:
  "set (map fst (add_to_group k v gs)) = insert k (set (map fst gs))"
  by (induction k v gs rule: add_to_group.induct) auto

lemma add_to_group_sorted:
  "sorted_wrt (<) (map fst gs) \<Longrightarrow> sorted_wrt (<) (map fst (add_to_group k v gs))"
proof (induction gs)
  case Nil
  then show ?case by simp
next
  case (Cons g gs)
  obtain a vs where g: "g = (a, vs)" by (cases g)
  have keys: "set (map fst (add_to_group k v gs)) = insert k (set (map fst gs))"
    by (rule add_to_group_keys)
  from Cons g keys show ?case
    by (auto simp del: set_map)
qed

lemma fold_add_sorted:
  "sorted_wrt (<) (map fst gs) \<Longrightarrow>
   sorted_wrt (<) (map fst (fold (\<lambda>x gs. add_to_group (key x) x gs) df gs))"
  by (induction df arbitrary: gs) (simp_all add: add_to_group_sorted)

lemma fold_add_keys:
  "set (map fst (fold (\<lambda>x gs. add_to_group (key x) x gs) df gs)) =
     key ` set df \<union> set (map fst gs)"
  by (induction df arbitrary: gs) (simp_all add: add_to_group_keys del: set_map)

lemma groupby_sorted: "sorted_wrt (<) (map fst (groupby key df))"
  by (simp add: groupby_def fold_add_sorted)

lemma groupby_keys: "set (map fst (groupby key df)) = key ` set df"
  unfolding groupby_def fold_add_keys by simp

lemma groupby_mean_keys: "map fst (groupby_mean key m fdf) = map fst (groupby key fdf)"
  by (simp add: groupby_mean_def case_prod_unfold comp_def)

lemma groupby_agg_mean_keys:
  "map fst (groupby_agg_mean key cols fdf) = map fst (groupby key fdf)"
  by (simp add: groupby_agg_mean_def case_prod_unfold comp_def)

text \<open>
  C6: over an empty view every grouped mean is the empty table, for any grouping key and
  any metric: the trend series by year and the tables by country, industry and tool.
\<close>

theorem groupby_mean_empty_view:
  "groupby_mean key m [] = [] \<and> groupby_agg_mean key cols [] = [] \<and>
   yearly_data m [] = [] \<and> country_metrics [] = [] \<and>
   industry_metrics [] = [] \<and> tool_analysis [] = []"
  by (simp add: groupby_mean_def groupby_agg_mean_def yearly_data_def country_metrics_def
      industry_metrics_def tool_analysis_def groupby_Nil)

text \<open>
  C10: the rows of a grouped mean come in strictly ascending order of the group key, one
  row for each key that occurs in the view, whatever the order of first occurrence. In
  the scenario dataset the country USA occurs first and the row of UK comes first.
\<close>

theorem groupby_keys_ascending:
  "sorted_wrt (<) (map fst (groupby_mean key m fdf)) \<and>
   set (map fst (groupby_mean key m fdf)) = key ` set fdf \<and>
   sorted_wrt (<) (map fst (groupby_agg_mean key cols fdf)) \<and>
   set (map fst (groupby_agg_mean key cols fdf)) = key ` set fdf \<and>
   sorted_wrt (<) (map fst (yearly_data m fdf)) \<and>
   sorted_wrt (<) (map fst (country_metrics fdf)) \<and>
   sorted_wrt (<) (map fst (industry_metrics fdf)) \<and>
   sorted_wrt (<) (map fst (tool_analysis fdf)) \<and>
   map country scenario_df = [''USA'', ''USA'', ''UK''] \<and>
   map fst (country_metrics scenario_df) = [''UK'', ''USA'']"
proof -
  have "map fst (country_metrics scenario_df) = [''UK'', ''USA'']"
    by (simp add: country_metrics_def groupby_agg_mean_def groupby_def scenario_df_def)
  moreover have "map country scenario_df = [''USA'', ''USA'', ''UK'']"
    by (simp add: scenario_df_def)
  ultimately show ?thesis
    unfolding yearly_data_def country_metrics_def industry_metrics_def tool_analysis_def
      groupby_mean_keys groupby_agg_mean_keys
    by (simp only: groupby_sorted groupby_keys simp_thms)
qed

text \<open>
  C1, as stated, fails: over an empty view the mean of the adoption column is the float
  NaN, and the card prints it through the numeric format as \<open>nan%\<close>, with the delta
  \<open>nan% from max\<close> computed from it by float subtraction.
\<close>

theorem kpi_empty_view_shows_nan:
  "avg_adoption [] = NaN \<and>
   kpi_adoption [] =
     \<lparr>card_label = ''AI Adoption Rate'', card_value = ''nan%'',
      card_delta = ''nan% from max''\<rparr>"
  by (simp add: kpi_adoption_def avg_adoption_def overall_mean_def series_mean_def
      series_max_def getcol_def)

text \<open>
  C1, amended: for every metric, the overall mean over an empty view is the float NaN
  (it is not zero); it prints as \<open>nan\<close>, and each of the four cards shows \<open>nan%\<close>.
\<close>

theorem overall_mean_empty_view:
  "overall_mean m [] = NaN \<and> overall_mean m [] \<noteq> Fin 0 \<and>
   format_2f (overall_mean m []) = ''nan'' \<and>
   card_value (kpi_adoption []) = ''nan%'' \<and>
   card_value (kpi_job_loss []) = ''nan%'' \<and>
   card_value (kpi_revenue []) = ''nan%'' \<and>
   card_value (kpi_collaboration []) = ''nan%''"
  by (simp add: kpi_adoption_def kpi_job_loss_def kpi_revenue_def kpi_collaboration_def
      avg_adoption_def avg_job_loss_def avg_revenue_def avg_collaboration_def
      overall_mean_def series_mean_def getcol_def)

lemma radar_trace_row:
  "radar_trace (nm, [(AdoptionRate, a), (JobLoss, b), (RevenueIncrease, c),
       (CollaborationRate, d)]) =
     Some \<lparr>trace_r = [a, b, c, d, a],
           trace_theta = [AdoptionRate, JobLoss, RevenueIncrease, CollaborationRate,
                          AdoptionRate],
           trace_fill = ''toself'', trace_name = nm\<rparr>"
  by (simp add: radar_trace_def categories_def)

text \<open>
  C8: for a row of per-industry means, the radar trace repeats the value of the first
  category at the end of the series and the first category at the end of the angular
  labels; every trace of the figure has this shape, and the row (10, 20, 30, 40) gives
  the series [10, 20, 30, 40, 10].
\<close>

theorem radar_trace_closes_loop:
  "radar_trace (nm, [(AdoptionRate, a), (JobLoss, b), (RevenueIncrease, c),
       (CollaborationRate, d)]) =
     Some \<lparr>trace_r = [a, b, c, d, a],
           trace_theta = [AdoptionRate, JobLoss, RevenueIncrease, CollaborationRate,
                          AdoptionRate],
           trace_fill = ''toself'', trace_name = nm\<rparr> \<and>
   fig_industry fdf =
     map (\<lambda>(k, rs).
            Some \<lparr>trace_r = [overall_mean AdoptionRate rs, overall_mean JobLoss rs,
                             overall_mean RevenueIncrease rs,
                             overall_mean CollaborationRate rs,
                             overall_mean AdoptionRate rs],
                  trace_theta = [AdoptionRate, JobLoss, RevenueIncrease,
                                 CollaborationRate, AdoptionRate],
                  trace_fill = ''toself'', trace_name = k\<rparr>)
         (groupby industry fdf) \<and>
   radar_trace (''Media'', [(AdoptionRate, Fin 10), (JobLoss, Fin 20),
       (RevenueIncrease, Fin 30), (CollaborationRate, Fin 40)]) =
     Some \<lparr>trace_r = [Fin 10, Fin 20, Fin 30, Fin 40, Fin 10],
           trace_theta = [AdoptionRate, JobLoss, RevenueIncrease, CollaborationRate,
                          AdoptionRate],
           trace_fill = ''toself'', trace_name = ''Media''\<rparr>"
  by (simp add: radar_trace_row fig_industry_def industry_metrics_def groupby_agg_mean_def
      overall_mean_def case_prod_unfold)

section \<open>Properties of the correlation matrix\<close>



















end
